theory Spec2Isabelle
  imports Main
begin

section \<open>Data model\<close>

text \<open>
  The reservation engine of \<^verbatim>\<open>backend/src/reservations/reservations.service.ts\<close>
  together with the two stock primitives of \<^verbatim>\<open>products.service.ts\<close>.

  Identifiers are the uuid strings of the entities, dates are milliseconds since the
  epoch, and a quantity is an integer (the column type of \<^verbatim>\<open>reservation.entity.ts\<close>).
\<close>

type_synonym uuid = string
type_synonym date = int

datatype ReservationStatus = ACTIVE | COMPLETED | EXPIRED

record Reservation =
  reservationId :: uuid
  productId :: uuid
  quantity :: int
  status :: ReservationStatus
  createdAt :: date
  expiresAt :: date

text \<open>Of a product row only the two stock columns are read or written by the engine.\<close>

record Product =
  availableStock :: int
  totalStock :: int

text \<open>
  The two tables. The products table is keyed by its primary key; the reservations
  table is kept as the list of its rows, in insertion order, each row carrying its
  primary key \<open>reservationId\<close>.
\<close>

record Database =
  products :: "uuid \<rightharpoonup> Product"
  reservations :: "Reservation list"

text \<open>
  Every exception the service can end with. The first six are the
  \<^verbatim>\<open>BadRequestException\<close>s and \<^verbatim>\<open>NotFoundException\<close>s the service throws itself,
  \<open>InternalServerError\<close> is the \<^verbatim>\<open>InternalServerErrorException\<close> of the catch block of
  \<^verbatim>\<open>create\<close>, \<open>TransactionNotStartedError\<close> is what a TypeORM query runner throws from
  \<^verbatim>\<open>rollbackTransaction\<close> when it has no active transaction, \<open>QueryFailedError\<close> is a
  failure of the storage, and \<open>TypeError\<close> is a property read on \<^verbatim>\<open>null\<close>.
\<close>

datatype error =
    QuantityTooSmall
  | ProductNotFound
  | InsufficientStock int
  | ReservationNotFound
  | CannotComplete ReservationStatus
  | ReservationExpired
  | InternalServerError
  | TransactionNotStartedError
  | QueryFailedError
  | TypeError

fun isBadRequestException :: "error \<Rightarrow> bool" where
  "isBadRequestException QuantityTooSmall = True"
| "isBadRequestException (InsufficientStock n) = True"
| "isBadRequestException (CannotComplete s) = True"
| "isBadRequestException ReservationExpired = True"
| "isBadRequestException e = False"

fun isNotFoundException :: "error \<Rightarrow> bool" where
  "isNotFoundException ProductNotFound = True"
| "isNotFoundException ReservationNotFound = True"
| "isNotFoundException e = False"

text \<open>
  The storage call of an operation that fails, if any. \<open>ConnectFails\<close> is a failure of
  \<^verbatim>\<open>connect\<close> or \<^verbatim>\<open>startTransaction\<close>; \<open>SelectFails\<close> of the first read of the operation;
  \<open>UpdateFails\<close> of the stock update of \<^verbatim>\<open>create\<close>; \<open>SaveFails\<close> of \<^verbatim>\<open>save\<close>;
  \<open>CommitFails\<close> of \<^verbatim>\<open>commitTransaction\<close>; \<open>IncrementFails\<close> of \<^verbatim>\<open>incrementStock\<close>.
\<close>

datatype fault =
  NoFault | ConnectFails | SelectFails | UpdateFails | SaveFails | CommitFails | IncrementFails

section \<open>Storage primitives\<close>

text \<open>\<^verbatim>\<open>reservationsRepository.findOne({ where: { id } })\<close>.\<close>

definition findOne :: "Database \<Rightarrow> uuid \<Rightarrow> Reservation option" where
  "findOne db i = find (\<lambda>r. reservationId r = i) (reservations db)"

text \<open>
  \<^verbatim>\<open>save\<close> of a reservation entity: an update of the row with the entity's primary key
  when there is one, an insert otherwise.
\<close>

definition save :: "Database \<Rightarrow> Reservation \<Rightarrow> Database" where
  "save db r =
     (if reservationId r \<in> reservationId ` set (reservations db)
      then db\<lparr>reservations :=
                map (\<lambda>x. if reservationId x = reservationId r then r else x) (reservations db)\<rparr>
      else db\<lparr>reservations := reservations db @ [r]\<rparr>)"

text \<open>
  \<^verbatim>\<open>ProductsService.incrementStock\<close> and \<^verbatim>\<open>decrementStock\<close>: an
  \<^verbatim>\<open>UPDATE ... WHERE id = :id\<close>, which touches no row when the product does not exist.
  The stock update of \<^verbatim>\<open>create\<close> (lines 72-78) is the same statement as
  \<^verbatim>\<open>decrementStock\<close>.
\<close>

definition incrementStock :: "Database \<Rightarrow> uuid \<Rightarrow> int \<Rightarrow> Database" where
  "incrementStock db i n =
     (case products db i of
        None \<Rightarrow> db
      | Some p \<Rightarrow> db\<lparr>products := (products db)(i \<mapsto> p\<lparr>availableStock := availableStock p + n\<rparr>)\<rparr>)"

definition decrementStock :: "Database \<Rightarrow> uuid \<Rightarrow> int \<Rightarrow> Database" where
  "decrementStock db i n =
     (case products db i of
        None \<Rightarrow> db
      | Some p \<Rightarrow> db\<lparr>products := (products db)(i \<mapsto> p\<lparr>availableStock := availableStock p - n\<rparr>)\<rparr>)"

text \<open>
  The query runner of \<^verbatim>\<open>create\<close>: whether its transaction is active, the tables as
  the transaction sees them, and the committed tables. Committing publishes the
  transaction's view; rolling back discards it, and throws when no transaction is
  active (the contract of TypeORM's \<^verbatim>\<open>QueryRunner.rollbackTransaction\<close>: "Error will
  be thrown if transaction was not started").
\<close>

record QueryRunner =
  isTransactionActive :: bool
  view :: Database
  committed :: Database

definition startTransaction :: "Database \<Rightarrow> QueryRunner" where
  "startTransaction db = \<lparr>isTransactionActive = True, view = db, committed = db\<rparr>"

definition commitTransaction :: "QueryRunner \<Rightarrow> QueryRunner" where
  "commitTransaction qr = qr\<lparr>isTransactionActive := False, committed := view qr\<rparr>"

definition rollbackTransaction :: "QueryRunner \<Rightarrow> error + QueryRunner" where
  "rollbackTransaction qr =
     (if isTransactionActive qr
      then Inr (qr\<lparr>isTransactionActive := False, view := committed qr\<rparr>)
      else Inl TransactionNotStartedError)"

section \<open>ReservationsService\<close>

subsection \<open>create\<close>

text \<open>
  The body of the \<^verbatim>\<open>try\<close> block of \<^verbatim>\<open>create\<close> (lines 46-125), up to the commit: the
  result or the exception thrown, and the query runner as the block leaves it. \<open>newId\<close>
  is the primary key the database generates for the inserted row (an insert with a key
  that is already there fails), \<open>now\<close> the clock. Scheduling the expiry job (lines
  96-119) touches neither table and its failure is swallowed, so it has no part here.
\<close>

definition create_try ::
  "fault \<Rightarrow> uuid \<Rightarrow> date \<Rightarrow> QueryRunner \<Rightarrow> uuid \<Rightarrow> int \<Rightarrow> (error + Reservation) \<times> QueryRunner" where
  "create_try f newId now qr pId qty =
     (if f = SelectFails then (Inl QueryFailedError, qr)
      else case products (view qr) pId of
        None \<Rightarrow>
          (case rollbackTransaction qr of
             Inl e \<Rightarrow> (Inl e, qr)
           | Inr qr' \<Rightarrow> (Inl ProductNotFound, qr'))
      | Some product \<Rightarrow>
          if availableStock product < qty
          then (case rollbackTransaction qr of
                  Inl e \<Rightarrow> (Inl e, qr)
                | Inr qr' \<Rightarrow> (Inl (InsufficientStock (availableStock product)), qr'))
          else if f = UpdateFails then (Inl QueryFailedError, qr)
          else
            let qr1 = qr\<lparr>view := decrementStock (view qr) pId qty\<rparr>;
                reservation = \<lparr>reservationId = newId, productId = pId, quantity = qty,
                               status = ACTIVE, createdAt = now,
                               expiresAt = now + 2 * 60 * 1000\<rparr>
            in if f = SaveFails \<or> newId \<in> reservationId ` set (reservations (view qr1))
               then (Inl QueryFailedError, qr1)
               else
                 let qr2 = qr1\<lparr>view := save (view qr1) reservation\<rparr>
                 in if f = CommitFails then (Inl QueryFailedError, qr2)
                    else (Inr reservation, commitTransaction qr2))"

text \<open>
  \<^verbatim>\<open>create\<close>: the quantity check (lines 34-37), the query runner (lines 40-44), the
  \<^verbatim>\<open>try\<close> block, and the \<^verbatim>\<open>catch\<close> block (lines 126-140), which rolls back first
  and then rethrows a bad request or a not found as it is and anything else as an
  internal server error. The catch block also runs after lines 59 and 65, where the
  transaction has been rolled back already; its own rollback then throws, and that
  exception is the one the caller sees. The result is paired with the committed
  tables.
\<close>

definition create ::
  "fault \<Rightarrow> uuid \<Rightarrow> date \<Rightarrow> Database \<Rightarrow> uuid \<Rightarrow> int \<Rightarrow> (error + Reservation) \<times> Database" where
  "create f newId now db pId qty =
     (if qty < 1 then (Inl QuantityTooSmall, db)
      else if f = ConnectFails then (Inl QueryFailedError, db)
      else case create_try f newId now (startTransaction db) pId qty of
        (Inr savedReservation, qr) \<Rightarrow> (Inr savedReservation, committed qr)
      | (Inl e, qr) \<Rightarrow>
          (case rollbackTransaction qr of
             Inl e' \<Rightarrow> (Inl e', committed qr)
           | Inr qr' \<Rightarrow>
               if isBadRequestException e \<or> isNotFoundException e
               then (Inl e, committed qr')
               else (Inl InternalServerError, committed qr')))"

subsection \<open>expireReservation and the cron job\<close>

text \<open>
  \<^verbatim>\<open>expireReservation\<close> (lines 245-276), run alone: nothing else touches the tables
  between its storage calls (calls that overlap are the matter of the tasks below).
  Its catch block logs and rethrows, so a storage failure leaves the tables as they
  were when it struck.
\<close>

definition expireReservation :: "fault \<Rightarrow> Database \<Rightarrow> uuid \<Rightarrow> (error + unit) \<times> Database" where
  "expireReservation f db i =
     (if f = SelectFails then (Inl QueryFailedError, db)
      else case findOne db i of
        None \<Rightarrow> (Inr (), db)
      | Some reservation \<Rightarrow>
          if status reservation \<noteq> ACTIVE then (Inr (), db)
          else if f = SaveFails then (Inl QueryFailedError, db)
          else
            let db1 = save db (reservation\<lparr>status := EXPIRED\<rparr>)
            in if f = IncrementFails then (Inl QueryFailedError, db1)
               else (Inr (), incrementStock db1 (productId reservation) (quantity reservation)))"

text \<open>
  The query of the cron job (lines 220-225): the rows with status \<^verbatim>\<open>ACTIVE\<close> and
  \<^verbatim>\<open>expiresAt: LessThan(new Date())\<close>.
\<close>

definition findExpiredActive :: "Database \<Rightarrow> date \<Rightarrow> Reservation list" where
  "findExpiredActive db now =
     filter (\<lambda>r. status r = ACTIVE \<and> expiresAt r < now) (reservations db)"

text \<open>
  The loop of the cron job (lines 232-234), run alone. \<open>fs\<close> gives the storage fault
  that strikes the expiry of each reservation; the first exception leaves the loop.
\<close>

fun expireEach :: "(uuid \<Rightarrow> fault) \<Rightarrow> Reservation list \<Rightarrow> Database \<Rightarrow> (error + unit) \<times> Database" where
  "expireEach fs [] db = (Inr (), db)"
| "expireEach fs (r # rs) db =
     (case expireReservation (fs (reservationId r)) db (reservationId r) of
        (Inl e, db') \<Rightarrow> (Inl e, db')
      | (Inr u, db') \<Rightarrow> expireEach fs rs db')"

text \<open>
  \<^verbatim>\<open>handleExpiredReservations\<close> (lines 217-239): the catch block swallows the
  exception, so the job always returns.
\<close>

definition handleExpiredReservations :: "(uuid \<Rightarrow> fault) \<Rightarrow> date \<Rightarrow> Database \<Rightarrow> Database" where
  "handleExpiredReservations fs now db = snd (expireEach fs (findExpiredActive db now) db)"

subsection \<open>complete\<close>

text \<open>
  \<^verbatim>\<open>complete\<close> (lines 150-195), for a storage that answers. \<open>others\<close> is what other
  requests and jobs did to the tables between the read of line 151 and the next
  storage call of this request: the second read of an overdue reservation (line 169),
  or the save of one that is in time (line 190), which writes the copy read at line
  151. What others do after the second read is the matter of the tasks below.
\<close>

definition complete_interleaved ::
  "(Database \<Rightarrow> Database) \<Rightarrow> Database \<Rightarrow> date \<Rightarrow> uuid \<Rightarrow> (error + Reservation) \<times> Database" where
  "complete_interleaved others db now i =
     (case findOne db i of
        None \<Rightarrow> (Inl ReservationNotFound, db)
      | Some reservation \<Rightarrow>
          if status reservation \<noteq> ACTIVE
          then (Inl (CannotComplete (status reservation)), db)
          else if now > expiresAt reservation
          then
            (let db1 = others db
             in case findOne db1 i of
                  None \<Rightarrow> (Inl TypeError, db1)
                | Some currentReservation \<Rightarrow>
                    if status currentReservation = ACTIVE
                    then (Inl ReservationExpired,
                          incrementStock (save db1 (currentReservation\<lparr>status := EXPIRED\<rparr>))
                            (productId currentReservation) (quantity currentReservation))
                    else (Inl ReservationExpired, db1))
          else
            (let completed = reservation\<lparr>status := COMPLETED\<rparr>
             in (Inr completed, save (others db) completed)))"

text \<open>\<^verbatim>\<open>complete\<close> with nothing else running meanwhile.\<close>

definition complete :: "Database \<Rightarrow> date \<Rightarrow> uuid \<Rightarrow> (error + Reservation) \<times> Database" where
  "complete db now i = complete_interleaved (\<lambda>d. d) db now i"

section \<open>Calls in flight\<close>

text \<open>
  \<^verbatim>\<open>expireReservation\<close> and \<^verbatim>\<open>complete\<close> take no lock and open no transaction:
  each of their storage calls is awaited on its own, and between two of them any other
  request or job may run. A task is such a call in flight, at the storage call it is
  about to make, with the entity it holds; the last three are the ways a call ends.
  \<^item> \<open>ExpireFind\<close>: \<^verbatim>\<open>findOne\<close> of line 247; \<open>ExpireSave\<close>: \<^verbatim>\<open>save\<close> of line 258;
    \<open>ExpireIncrement\<close>: \<^verbatim>\<open>incrementStock\<close> of line 261.
  \<^item> \<open>CompleteFind\<close>: \<^verbatim>\<open>findOne\<close> of line 151; \<open>CompleteReread\<close>: \<^verbatim>\<open>findOne\<close> of line
    169; \<open>CompleteExpire\<close>: \<^verbatim>\<open>save\<close> of line 176; \<open>CompleteIncrement\<close>:
    \<^verbatim>\<open>incrementStock\<close> of line 177; \<open>CompleteSave\<close>: \<^verbatim>\<open>save\<close> of line 190.
\<close>

datatype task =
    ExpireFind uuid
  | ExpireSave Reservation
  | ExpireIncrement Reservation
  | CompleteFind uuid
  | CompleteReread uuid
  | CompleteExpire Reservation
  | CompleteIncrement Reservation
  | CompleteSave Reservation
  | Returned
  | ReturnedReservation Reservation
  | Thrown error

text \<open>
  One storage call of a task, for a storage that answers, and the code that follows it
  up to the next \<^verbatim>\<open>await\<close>. \<open>now\<close> is the clock, read by \<^verbatim>\<open>complete\<close> at line 166.
\<close>

fun advance :: "date \<Rightarrow> Database \<Rightarrow> task \<Rightarrow> task \<times> Database" where
  "advance now db (ExpireFind i) =
     (case findOne db i of
        None \<Rightarrow> (Returned, db)
      | Some reservation \<Rightarrow>
          if status reservation \<noteq> ACTIVE then (Returned, db)
          else (ExpireSave reservation, db))"
| "advance now db (ExpireSave reservation) =
     (ExpireIncrement reservation, save db (reservation\<lparr>status := EXPIRED\<rparr>))"
| "advance now db (ExpireIncrement reservation) =
     (Returned, incrementStock db (productId reservation) (quantity reservation))"
| "advance now db (CompleteFind i) =
     (case findOne db i of
        None \<Rightarrow> (Thrown ReservationNotFound, db)
      | Some reservation \<Rightarrow>
          if status reservation \<noteq> ACTIVE
          then (Thrown (CannotComplete (status reservation)), db)
          else if now > expiresAt reservation then (CompleteReread i, db)
          else (CompleteSave reservation, db))"
| "advance now db (CompleteReread i) =
     (case findOne db i of
        None \<Rightarrow> (Thrown TypeError, db)
      | Some currentReservation \<Rightarrow>
          if status currentReservation = ACTIVE then (CompleteExpire currentReservation, db)
          else (Thrown ReservationExpired, db))"
| "advance now db (CompleteExpire currentReservation) =
     (CompleteIncrement currentReservation, save db (currentReservation\<lparr>status := EXPIRED\<rparr>))"
| "advance now db (CompleteIncrement currentReservation) =
     (Thrown ReservationExpired,
      incrementStock db (productId currentReservation) (quantity currentReservation))"
| "advance now db (CompleteSave reservation) =
     (ReturnedReservation (reservation\<lparr>status := COMPLETED\<rparr>),
      save db (reservation\<lparr>status := COMPLETED\<rparr>))"
| "advance now db Returned = (Returned, db)"
| "advance now db (ReturnedReservation r) = (ReturnedReservation r, db)"
| "advance now db (Thrown e) = (Thrown e, db)"

text \<open>
  What happens in the system, one thing at a time: a call of \<^verbatim>\<open>create\<close>, which holds
  the lock of its product row inside one transaction and so takes effect at once; the
  arrival of a call of \<^verbatim>\<open>complete\<close> (a request) or of \<^verbatim>\<open>expireReservation\<close> (the queue
  job of the reservation, or the cron job); and the next storage call of the \<open>k\<close>-th
  call in flight.
\<close>

datatype event =
    CallCreate fault uuid date uuid int
  | CallComplete uuid
  | CallExpire uuid
  | Resume nat date

fun occur :: "event \<Rightarrow> task list \<times> Database \<Rightarrow> task list \<times> Database" where
  "occur (CallCreate f newId now pId qty) (ts, db) = (ts, snd (create f newId now db pId qty))"
| "occur (CallComplete i) (ts, db) = (ts @ [CompleteFind i], db)"
| "occur (CallExpire i) (ts, db) = (ts @ [ExpireFind i], db)"
| "occur (Resume k now) (ts, db) =
     (if k < length ts
      then (case advance now db (ts ! k) of (t, db') \<Rightarrow> (ts[k := t], db'))
      else (ts, db))"

definition run :: "event list \<Rightarrow> task list \<times> Database \<Rightarrow> task list \<times> Database" where
  "run es s = fold occur es s"

text \<open>The quantity held by the active reservations of a product.\<close>

definition activeQuantity :: "Database \<Rightarrow> uuid \<Rightarrow> int" where
  "activeQuantity db p =
     sum_list (map quantity (filter (\<lambda>r. productId r = p \<and> status r = ACTIVE) (reservations db)))"

subsection \<open>A small shop\<close>

text \<open>
  One product with five units, and the state after two of them have been reserved at
  time 0.
\<close>

definition shop :: Database where
  "shop = \<lparr>products = [''p1'' \<mapsto> \<lparr>availableStock = 5, totalStock = 5\<rparr>], reservations = []\<rparr>"

definition held :: Reservation where
  "held = \<lparr>reservationId = ''r1'', productId = ''p1'', quantity = 2, status = ACTIVE,
            createdAt = 0, expiresAt = 120000\<rparr>"

definition shop_held :: Database where
  "shop_held =
     \<lparr>products = [''p1'' \<mapsto> \<lparr>availableStock = 3, totalStock = 5\<rparr>], reservations = [held]\<rparr>"

definition shop_released :: Database where
  "shop_released =
     \<lparr>products = [''p1'' \<mapsto> \<lparr>availableStock = 5, totalStock = 5\<rparr>],
      reservations = [held\<lparr>status := EXPIRED\<rparr>]\<rparr>"

text \<open>The shop after the two units have been credited twice, and after a sale.\<close>

definition shop_overcredited :: Database where
  "shop_overcredited =
     \<lparr>products = [''p1'' \<mapsto> \<lparr>availableStock = 7, totalStock = 5\<rparr>],
      reservations = [held\<lparr>status := EXPIRED\<rparr>]\<rparr>"

definition shop_sold_and_released :: Database where
  "shop_sold_and_released =
     \<lparr>products = [''p1'' \<mapsto> \<lparr>availableStock = 5, totalStock = 5\<rparr>],
      reservations = [held\<lparr>status := COMPLETED\<rparr>]\<rparr>"

section \<open>The storage primitives\<close>

lemma findOne_SomeD:
  "findOne db i = Some r \<Longrightarrow> reservationId r = i \<and> r \<in> set (reservations db)"
  by (auto simp: findOne_def find_Some_iff)

lemma findOne_key_present:
  assumes "findOne db i = Some r"
  shows "i \<in> reservationId ` set (reservations db)"
proof -
  have "reservationId r \<in> reservationId ` set (reservations db)"
    using findOne_SomeD [OF assms] by blast
  then show ?thesis using findOne_SomeD [OF assms] by simp
qed

lemma find_map_replace:
  "find (\<lambda>r. reservationId r = i) rs = Some r \<Longrightarrow> reservationId r' = i \<Longrightarrow>
   find (\<lambda>r. reservationId r = i) (map (\<lambda>x. if reservationId x = i then r' else x) rs) = Some r'"
  by (induction rs) (auto split: if_splits)

lemma findOne_save_same:
  assumes "findOne db i = Some r" and "reservationId r' = i"
  shows "findOne (save db r') i = Some r'"
  using assms findOne_key_present [OF assms(1)]
  by (simp add: findOne_def save_def find_map_replace)

lemma products_save [simp]: "products (save db r) = products db"
  by (simp add: save_def)

lemma reservations_incrementStock [simp]:
  "reservations (incrementStock db p n) = reservations db"
  by (simp add: incrementStock_def split: option.splits)

lemma findOne_incrementStock [simp]: "findOne (incrementStock db p n) i = findOne db i"
  by (simp add: findOne_def)

lemma products_incrementStock:
  "products (incrementStock db p n) q =
     (if q = p then map_option (\<lambda>x. x\<lparr>availableStock := availableStock x + n\<rparr>) (products db p)
      else products db q)"
  by (simp add: incrementStock_def split: option.splits)

lemma shop_held_findOne: "findOne shop_held ''r1'' = Some held"
  by (simp add: findOne_def shop_held_def held_def)

lemma shop_held_products:
  "products shop_held ''p1'' = Some \<lparr>availableStock = 3, totalStock = 5\<rparr>"
  by (simp add: shop_held_def)

lemma held_fields:
  "reservationId held = ''r1''" "productId held = ''p1''" "quantity held = 2"
  "status held = ACTIVE" "expiresAt held = 120000"
  by (simp_all add: held_def)

lemma shop_held_create: "create NoFault ''r1'' 0 shop ''p1'' 2 = (Inr held, shop_held)"
  by (simp add: create_def create_try_def startTransaction_def commitTransaction_def
      rollbackTransaction_def decrementStock_def save_def shop_def shop_held_def held_def Let_def)

lemma create_SaveFails: "fst (create SaveFails ''r1'' 0 shop ''p1'' 2) = Inl InternalServerError"
  by (simp add: create_def create_try_def startTransaction_def commitTransaction_def
      rollbackTransaction_def decrementStock_def save_def shop_def Let_def)

lemma shop_released_findOne: "findOne shop_released ''r1'' = Some (held\<lparr>status := EXPIRED\<rparr>)"
  by (simp add: findOne_def shop_released_def held_def)

section \<open>What each operation leaves behind\<close>

lemma create_cases:
  "snd (create f newId now db pId qty) = db \<and> (\<exists>e. fst (create f newId now db pId qty) = Inl e) \<or>
   (\<exists>x. products db pId = Some x \<and> qty \<le> availableStock x \<and> 1 \<le> qty \<and>
        newId \<notin> reservationId ` set (reservations db) \<and>
        create f newId now db pId qty =
          (Inr \<lparr>reservationId = newId, productId = pId, quantity = qty, status = ACTIVE,
                createdAt = now, expiresAt = now + 120000\<rparr>,
           \<lparr>products = (products db)(pId \<mapsto> x\<lparr>availableStock := availableStock x - qty\<rparr>),
            reservations = reservations db @
              [\<lparr>reservationId = newId, productId = pId, quantity = qty, status = ACTIVE,
                createdAt = now, expiresAt = now + 120000\<rparr>]\<rparr>))"
  by (cases db) (auto simp: create_def create_try_def startTransaction_def rollbackTransaction_def
      commitTransaction_def decrementStock_def save_def Let_def
      split: option.splits)

section \<open>Rejection of a quantity below one\<close>

text \<open>
  C7. A call of \<^verbatim>\<open>create\<close> with a quantity below one ends with the bad request
  "Quantity must be at least 1" and leaves both tables as they were. The check comes
  before the query runner is made: the outcome is the same whatever the storage would
  have done, even with a storage that refuses the connection.
\<close>

theorem create_rejects_quantity_below_one:
  "qty < 1 \<Longrightarrow> create f newId now db pId qty = (Inl QuantityTooSmall, db)"
  by (simp add: create_def)

theorem create_rejects_quantity_below_one_witness:
  "(0::int) < 1 \<and> create ConnectFails ''r1'' 0 shop ''p1'' 0 = (Inl QuantityTooSmall, shop)"
  using create_rejects_quantity_below_one [of 0 ConnectFails "''r1''" 0 shop "''p1''"]
  by simp

section \<open>Expiry\<close>

text \<open>
  C2. Expiring an active reservation twice in a row credits the stock of its product
  once: the first call returns normally, leaves the reservation \<^verbatim>\<open>EXPIRED\<close> and adds
  its quantity to the available stock; the second call returns normally and changes
  neither table.
\<close>

theorem expireReservation_twice_credits_once:
  assumes "findOne db i = Some r" and "status r = ACTIVE"
    and "products db (productId r) = Some x"
  shows "fst (expireReservation NoFault db i) = Inr () \<and>
         findOne (snd (expireReservation NoFault db i)) i = Some (r\<lparr>status := EXPIRED\<rparr>) \<and>
         products (snd (expireReservation NoFault db i)) (productId r)
           = Some (x\<lparr>availableStock := availableStock x + quantity r\<rparr>) \<and>
         expireReservation NoFault (snd (expireReservation NoFault db i)) i
           = (Inr (), snd (expireReservation NoFault db i))"
proof -
  have rid: "reservationId r = i" using assms(1) by (simp add: findOne_SomeD)
  let ?db1 = "incrementStock (save db (r\<lparr>status := EXPIRED\<rparr>)) (productId r) (quantity r)"
  have e1: "expireReservation NoFault db i = (Inr (), ?db1)"
    using assms by (simp add: expireReservation_def)
  have f1: "findOne ?db1 i = Some (r\<lparr>status := EXPIRED\<rparr>)"
    using assms(1) rid by (simp add: findOne_save_same)
  have p1: "products ?db1 (productId r)
              = Some (x\<lparr>availableStock := availableStock x + quantity r\<rparr>)"
    using assms(3) by (simp add: products_incrementStock)
  have e2: "expireReservation NoFault ?db1 i = (Inr (), ?db1)"
    using f1 by (simp add: expireReservation_def)
  show ?thesis using e1 f1 p1 e2 by simp
qed

theorem expireReservation_twice_credits_once_witness:
  "findOne shop_held ''r1'' = Some held \<and> status held = ACTIVE \<and>
   products shop_held (productId held) = Some \<lparr>availableStock = 3, totalStock = 5\<rparr> \<and>
   fst (expireReservation NoFault shop_held ''r1'') = Inr () \<and>
   findOne (snd (expireReservation NoFault shop_held ''r1'')) ''r1''
     = Some (held\<lparr>status := EXPIRED\<rparr>) \<and>
   products (snd (expireReservation NoFault shop_held ''r1'')) ''p1''
     = Some \<lparr>availableStock = 5, totalStock = 5\<rparr> \<and>
   expireReservation NoFault (snd (expireReservation NoFault shop_held ''r1'')) ''r1''
     = (Inr (), snd (expireReservation NoFault shop_held ''r1''))"
proof -
  have h3: "products shop_held (productId held) = Some \<lparr>availableStock = 3, totalStock = 5\<rparr>"
    by (simp add: shop_held_products held_fields)
  show ?thesis
    using shop_held_findOne h3
      expireReservation_twice_credits_once [OF shop_held_findOne held_fields(4) h3]
    by (simp add: held_fields)
qed

text \<open>
  C10. For an id that matches no reservation, \<^verbatim>\<open>expireReservation\<close> returns normally
  (no exception, as long as the storage answers the read) and leaves both tables as
  they were.
\<close>

theorem expireReservation_unknown_id:
  "findOne db i = None \<Longrightarrow> f \<noteq> SelectFails \<Longrightarrow> expireReservation f db i = (Inr (), db)"
  by (simp add: expireReservation_def)

theorem expireReservation_unknown_id_witness:
  "findOne shop_held ''r9'' = None \<and> NoFault \<noteq> SelectFails \<and>
   expireReservation NoFault shop_held ''r9'' = (Inr (), shop_held)"
proof -
  have h: "findOne shop_held ''r9'' = None"
    by (simp add: findOne_def shop_held_def held_def)
  show ?thesis
    using h expireReservation_unknown_id [OF h, of NoFault] by simp
qed

section \<open>The query of the cron job\<close>

text \<open>
  C8, as the code has it. The query of a cron tick returns the reservations with
  status \<^verbatim>\<open>ACTIVE\<close> whose \<open>expiresAt\<close> is strictly before \<open>now\<close>, and no other; an
  active reservation whose \<open>expiresAt\<close> equals \<open>now\<close> is not part of the result.
\<close>

theorem findExpiredActive_strictly_before_now:
  "r \<in> set (findExpiredActive db now)
     \<longleftrightarrow> r \<in> set (reservations db) \<and> status r = ACTIVE \<and> expiresAt r < now"
  by (auto simp: findExpiredActive_def)

theorem findExpiredActive_strictly_before_now_witness:
  "held \<notin> set (findExpiredActive shop_held 120000) \<and>
   held \<in> set (findExpiredActive shop_held 120001)"
  using findExpiredActive_strictly_before_now [of held shop_held 120000]
    findExpiredActive_strictly_before_now [of held shop_held 120001]
  by (simp add: held_fields) (simp add: shop_held_def)

text \<open>
  C8, as the specification states it (\<open>expiresAt \<le> now\<close>), fails: at time 120000 the
  reservation \<open>held\<close> is active and its \<open>expiresAt\<close> is 120000, and the query does not
  return it.
\<close>

theorem findExpiredActive_deadline_now_counterexample:
  "held \<in> set (reservations shop_held) \<and> status held = ACTIVE \<and> expiresAt held \<le> 120000 \<and>
   held \<notin> set (findExpiredActive shop_held 120000)"
  by (simp add: findExpiredActive_def shop_held_def held_def)

section \<open>The transaction of create\<close>

text \<open>
  C6. Whenever \<^verbatim>\<open>create\<close> ends with an exception, of whatever kind and whichever
  storage call failed, both tables are as they were before the call. When it returns a
  reservation, the stock of the product has been decremented by the quantity and the
  returned reservation, active and for that quantity, is the one row added: there is
  no decrement without its reservation and no reservation without its decrement.
\<close>

theorem create_failure_rolls_back:
  "(case fst (create f newId now db pId qty) of
      Inl e \<Rightarrow> snd (create f newId now db pId qty) = db
    | Inr saved \<Rightarrow>
        (\<exists>x. products db pId = Some x \<and>
             products (snd (create f newId now db pId qty))
               = (products db)(pId \<mapsto> x\<lparr>availableStock := availableStock x - qty\<rparr>) \<and>
             reservations (snd (create f newId now db pId qty)) = reservations db @ [saved] \<and>
             productId saved = pId \<and> quantity saved = qty \<and> status saved = ACTIVE))"
  using create_cases [of f newId now db pId qty] by auto

theorem create_failure_rolls_back_witness:
  "fst (create SaveFails ''r1'' 0 shop ''p1'' 2) = Inl InternalServerError \<and>
   snd (create SaveFails ''r1'' 0 shop ''p1'' 2) = shop"
  using create_failure_rolls_back [of SaveFails "''r1''" 0 shop "''p1''" 2]
  by (simp add: create_SaveFails)

text \<open>
  C5, at an unknown product and at a product with too little stock. Lines 59 and 65
  roll the transaction back inside the \<^verbatim>\<open>try\<close> block before they throw; the
  \<^verbatim>\<open>catch\<close> block rolls back again at line 128, on a query runner whose transaction
  is no longer active, and that call throws before the \<^verbatim>\<open>NotFoundException\<close> or the
  \<^verbatim>\<open>BadRequestException\<close> can be thrown again at line 134. The caller gets the
  \<^verbatim>\<open>TransactionNotStartedError\<close>; the tables are unchanged.
\<close>

theorem create_missing_product_or_stock:
  "create NoFault ''r1'' 0 shop ''p9'' 1 = (Inl TransactionNotStartedError, shop) \<and>
   create NoFault ''r1'' 0 shop ''p1'' 6 = (Inl TransactionNotStartedError, shop)"
  by (simp add: create_def create_try_def startTransaction_def rollbackTransaction_def shop_def)

section \<open>Completion\<close>

text \<open>
  C9. Completing an active reservation at the very instant of its \<open>expiresAt\<close> succeeds:
  the call returns the reservation with status \<^verbatim>\<open>COMPLETED\<close>, that is the row stored
  under its id afterwards, and no stock changes. The expiry branch of \<^verbatim>\<open>complete\<close> is
  only ever taken for an active reservation whose \<open>expiresAt\<close> is strictly before
  \<open>now\<close>.
\<close>

theorem complete_at_deadline_succeeds:
  assumes "findOne db i = Some r" and "status r = ACTIVE" and "expiresAt r = now"
  shows "fst (complete db now i) = Inr (r\<lparr>status := COMPLETED\<rparr>) \<and>
         findOne (snd (complete db now i)) i = Some (r\<lparr>status := COMPLETED\<rparr>) \<and>
         products (snd (complete db now i)) = products db \<and>
         (\<forall>d t j. fst (complete d t j) = Inl ReservationExpired \<longrightarrow>
            (\<exists>c. findOne d j = Some c \<and> status c = ACTIVE \<and> expiresAt c < t))"
proof -
  have rid: "reservationId r = i" using assms(1) by (simp add: findOne_SomeD)
  have c: "complete db now i
             = (Inr (r\<lparr>status := COMPLETED\<rparr>), save db (r\<lparr>status := COMPLETED\<rparr>))"
    using assms by (simp add: complete_def complete_interleaved_def Let_def)
  have f: "findOne (save db (r\<lparr>status := COMPLETED\<rparr>)) i = Some (r\<lparr>status := COMPLETED\<rparr>)"
    using assms(1) rid by (simp add: findOne_save_same)
  have e: "\<exists>c. findOne d j = Some c \<and> status c = ACTIVE \<and> expiresAt c < t"
    if "fst (complete d t j) = Inl ReservationExpired" for d t j
    using that
    by (auto simp: complete_def complete_interleaved_def Let_def split: option.splits if_splits)
  show ?thesis using c f e by simp
qed

theorem complete_at_deadline_succeeds_witness:
  "findOne shop_held ''r1'' = Some held \<and> status held = ACTIVE \<and> expiresAt held = 120000 \<and>
   fst (complete shop_held 120000 ''r1'') = Inr (held\<lparr>status := COMPLETED\<rparr>) \<and>
   findOne (snd (complete shop_held 120000 ''r1'')) ''r1'' = Some (held\<lparr>status := COMPLETED\<rparr>) \<and>
   products (snd (complete shop_held 120000 ''r1'')) ''p1''
     = Some \<lparr>availableStock = 3, totalStock = 5\<rparr>"
  using shop_held_findOne held_fields(4,5) shop_held_products
    complete_at_deadline_succeeds [OF shop_held_findOne held_fields(4) held_fields(5)]
  by simp

text \<open>
  C4. Completing an active reservation after its \<open>expiresAt\<close> ends with the bad request
  "Reservation has expired", leaves the reservation \<^verbatim>\<open>EXPIRED\<close> and adds its quantity to
  the available stock of its product. When \<^verbatim>\<open>expireReservation\<close> ran for that
  reservation between the two reads of \<^verbatim>\<open>complete\<close>, the call ends with the same
  bad request and the tables are those the expiry left, with the quantity credited
  once; more generally, whenever the second read finds the reservation no longer
  active, \<^verbatim>\<open>complete\<close> writes nothing.
\<close>

theorem complete_overdue_releases_once:
  assumes "findOne db i = Some r" and "status r = ACTIVE" and "expiresAt r < now"
    and "products db (productId r) = Some x"
  shows "fst (complete db now i) = Inl ReservationExpired \<and>
         findOne (snd (complete db now i)) i = Some (r\<lparr>status := EXPIRED\<rparr>) \<and>
         products (snd (complete db now i)) (productId r)
           = Some (x\<lparr>availableStock := availableStock x + quantity r\<rparr>) \<and>
         complete_interleaved (\<lambda>d. snd (expireReservation NoFault d i)) db now i
           = (Inl ReservationExpired, snd (expireReservation NoFault db i)) \<and>
         products (snd (expireReservation NoFault db i)) (productId r)
           = Some (x\<lparr>availableStock := availableStock x + quantity r\<rparr>) \<and>
         (\<forall>others c. findOne (others db) i = Some c \<and> status c \<noteq> ACTIVE \<longrightarrow>
            complete_interleaved others db now i = (Inl ReservationExpired, others db))"
proof -
  have rid: "reservationId r = i" using assms(1) by (simp add: findOne_SomeD)
  let ?db1 = "incrementStock (save db (r\<lparr>status := EXPIRED\<rparr>)) (productId r) (quantity r)"
  have c: "complete db now i = (Inl ReservationExpired, ?db1)"
    using assms by (simp add: complete_def complete_interleaved_def)
  have e: "expireReservation NoFault db i = (Inr (), ?db1)"
    using assms by (simp add: expireReservation_def)
  have f1: "findOne ?db1 i = Some (r\<lparr>status := EXPIRED\<rparr>)"
    using assms(1) rid by (simp add: findOne_save_same)
  have p1: "products ?db1 (productId r)
              = Some (x\<lparr>availableStock := availableStock x + quantity r\<rparr>)"
    using assms(4) by (simp add: products_incrementStock)
  have ci: "complete_interleaved (\<lambda>d. snd (expireReservation NoFault d i)) db now i
              = (Inl ReservationExpired, ?db1)"
    using assms(1,2,3) e f1 by (simp add: complete_interleaved_def)
  have g: "complete_interleaved others db now i = (Inl ReservationExpired, others db)"
    if "findOne (others db) i = Some c" and "status c \<noteq> ACTIVE" for others c
    using assms(1,2,3) that by (simp add: complete_interleaved_def)
  show ?thesis using c e f1 p1 ci g by simp
qed

theorem complete_overdue_releases_once_witness:
  "findOne shop_held ''r1'' = Some held \<and> status held = ACTIVE \<and> expiresAt held < 120001 \<and>
   products shop_held (productId held) = Some \<lparr>availableStock = 3, totalStock = 5\<rparr> \<and>
   fst (complete shop_held 120001 ''r1'') = Inl ReservationExpired \<and>
   findOne (snd (complete shop_held 120001 ''r1'')) ''r1'' = Some (held\<lparr>status := EXPIRED\<rparr>) \<and>
   products (snd (complete shop_held 120001 ''r1'')) ''p1''
     = Some \<lparr>availableStock = 5, totalStock = 5\<rparr> \<and>
   complete_interleaved (\<lambda>d. snd (expireReservation NoFault d ''r1'')) shop_held 120001 ''r1''
     = (Inl ReservationExpired, snd (expireReservation NoFault shop_held ''r1'')) \<and>
   products (snd (expireReservation NoFault shop_held ''r1'')) ''p1''
     = Some \<lparr>availableStock = 5, totalStock = 5\<rparr>"
proof -
  have h3: "expiresAt held < 120001" by (simp add: held_fields)
  have h4: "products shop_held (productId held) = Some \<lparr>availableStock = 3, totalStock = 5\<rparr>"
    by (simp add: shop_held_products held_fields)
  show ?thesis
    using shop_held_findOne h3 h4
      complete_overdue_releases_once [OF shop_held_findOne held_fields(4) h3 h4]
    by (simp add: held_fields)
qed

section \<open>Overlapping calls\<close>

text \<open>
  A call that runs from its arrival to its end with nothing in between does what the
  operation does as a whole.
\<close>

lemma expireReservation_alone:
  "run [CallExpire i, Resume 0 t1, Resume 0 t2, Resume 0 t3] ([], db)
     = ([Returned], snd (expireReservation NoFault db i))"
  by (simp add: run_def expireReservation_def Let_def split: option.splits)

lemma complete_alone:
  "run [CallComplete i, Resume 0 now, Resume 0 t2, Resume 0 t3, Resume 0 t4] ([], db)
     = ([case fst (complete db now i) of Inl e \<Rightarrow> Thrown e | Inr r \<Rightarrow> ReturnedReservation r],
        snd (complete db now i))"
  by (simp add: run_def complete_def complete_interleaved_def Let_def split: option.splits)

text \<open>
  C1, where two calls overlap. The shop starts with no reservation and its five units
  available; two units are reserved. After the deadline the queue job of the
  reservation and the cron job, whose query returns it, both call
  \<^verbatim>\<open>expireReservation\<close> for it. Both read it (line 247) before either saves, so both
  find it \<^verbatim>\<open>ACTIVE\<close> at line 252, both save it as \<^verbatim>\<open>EXPIRED\<close> and both call
  \<^verbatim>\<open>incrementStock\<close>: the product ends with seven units available out of a total of
  five, and no active reservation. The check of line 252 and the save of line 258 are
  two storage calls, not one conditioned update.
\<close>

theorem overlapping_expiries_credit_twice:
  "reservations shop = [] \<and>
   products shop ''p1'' = Some \<lparr>availableStock = 5, totalStock = 5\<rparr> \<and>
   run [CallCreate NoFault ''r1'' 0 ''p1'' 2] ([], shop) = ([], shop_held) \<and>
   held \<in> set (findExpiredActive shop_held 120001) \<and>
   run [CallExpire ''r1'', CallExpire ''r1'',
        Resume 0 120001, Resume 1 120001,
        Resume 0 120001, Resume 1 120001,
        Resume 0 120001, Resume 1 120001] ([], shop_held)
     = ([Returned, Returned], shop_overcredited) \<and>
   products shop_overcredited ''p1'' = Some \<lparr>availableStock = 7, totalStock = 5\<rparr> \<and>
   activeQuantity shop_overcredited ''p1'' = 0 \<and>
   \<not> activeQuantity shop_overcredited ''p1'' + 7 \<le> (5::int)"
proof -
  have a: "reservations shop = [] \<and>
           products shop ''p1'' = Some \<lparr>availableStock = 5, totalStock = 5\<rparr>"
    by (simp add: shop_def)
  have b: "run [CallCreate NoFault ''r1'' 0 ''p1'' 2] ([], shop) = ([], shop_held)"
    by (simp add: run_def shop_held_create)
  have c: "held \<in> set (findExpiredActive shop_held 120001)"
    by (simp add: findExpiredActive_def shop_held_def held_def)
  have d: "run [CallExpire ''r1'', CallExpire ''r1'',
        Resume 0 120001, Resume 1 120001,
        Resume 0 120001, Resume 1 120001,
        Resume 0 120001, Resume 1 120001] ([], shop_held)
     = ([Returned, Returned], shop_overcredited)"
    by (simp add: run_def findOne_def save_def incrementStock_def
        shop_held_def shop_overcredited_def held_def)
  have e: "products shop_overcredited ''p1'' = Some \<lparr>availableStock = 7, totalStock = 5\<rparr> \<and>
           activeQuantity shop_overcredited ''p1'' = 0"
    by (simp add: activeQuantity_def shop_overcredited_def held_def)
  show ?thesis using a b c d e by simp
qed

text \<open>
  C3, as the specification states it, fails twice. \<^verbatim>\<open>expireReservation\<close> reports
  nothing: on a reservation that is already \<^verbatim>\<open>EXPIRED\<close> it returns what it returns
  when it has just expired one, or when there is none. And a row does go from
  \<^verbatim>\<open>EXPIRED\<close> to \<^verbatim>\<open>COMPLETED\<close>: \<^verbatim>\<open>complete\<close> reads the reservation at its deadline,
  still active and in time; the expiry job then runs to its end, leaving it
  \<^verbatim>\<open>EXPIRED\<close> with its two units credited; and the save of line 190 writes the copy
  read at line 151 as \<^verbatim>\<open>COMPLETED\<close>.
\<close>

theorem resolved_reservation_counterexample:
  "expireReservation NoFault shop_released ''r1'' = (Inr (), shop_released) \<and>
   fst (expireReservation NoFault shop_held ''r1'') = Inr () \<and>
   fst (expireReservation NoFault shop_held ''r9'') = Inr () \<and>
   run [CallComplete ''r1'', Resume 0 120000, CallExpire ''r1'',
        Resume 1 120001, Resume 1 120001, Resume 1 120001] ([], shop_held)
     = ([CompleteSave held, Returned], shop_released) \<and>
   findOne shop_released ''r1'' = Some (held\<lparr>status := EXPIRED\<rparr>) \<and>
   run [Resume 0 120001] ([CompleteSave held, Returned], shop_released)
     = ([ReturnedReservation (held\<lparr>status := COMPLETED\<rparr>), Returned], shop_sold_and_released) \<and>
   findOne shop_sold_and_released ''r1'' = Some (held\<lparr>status := COMPLETED\<rparr>) \<and>
   products shop_sold_and_released ''p1'' = Some \<lparr>availableStock = 5, totalStock = 5\<rparr>"
  by (simp add: run_def expireReservation_def findOne_def save_def incrementStock_def Let_def
      shop_held_def shop_released_def shop_sold_and_released_def held_def)

text \<open>
  C3, as the code has it. When the read of an attempt finds the reservation no longer
  active, the attempt ends there and both tables stay exactly as they were:
  \<^verbatim>\<open>complete\<close> ends with the bad request "Cannot complete reservation. Current
  status: ...", whatever other requests do meanwhile, and \<^verbatim>\<open>expireReservation\<close>
  returns, with no report, whatever the storage would have done after the read.
\<close>

theorem resolved_reservation_attempt_changes_nothing:
  assumes "findOne db i = Some r" and "status r \<noteq> ACTIVE"
  shows "complete db now i = (Inl (CannotComplete (status r)), db) \<and>
         (\<forall>others. complete_interleaved others db now i
            = (Inl (CannotComplete (status r)), db)) \<and>
         advance now db (CompleteFind i) = (Thrown (CannotComplete (status r)), db) \<and>
         (\<forall>f. f \<noteq> SelectFails \<longrightarrow> expireReservation f db i = (Inr (), db)) \<and>
         advance now db (ExpireFind i) = (Returned, db)"
  using assms by (simp add: complete_def complete_interleaved_def expireReservation_def)

theorem resolved_reservation_attempt_changes_nothing_witness:
  "findOne shop_released ''r1'' = Some (held\<lparr>status := EXPIRED\<rparr>) \<and>
   status (held\<lparr>status := EXPIRED\<rparr>) \<noteq> ACTIVE \<and>
   complete shop_released 5 ''r1'' = (Inl (CannotComplete EXPIRED), shop_released) \<and>
   advance 5 shop_released (CompleteFind ''r1'') = (Thrown (CannotComplete EXPIRED), shop_released) \<and>
   NoFault \<noteq> SelectFails \<and>
   expireReservation NoFault shop_released ''r1'' = (Inr (), shop_released) \<and>
   advance 5 shop_released (ExpireFind ''r1'') = (Returned, shop_released)"
proof -
  have n: "status (held\<lparr>status := EXPIRED\<rparr>) \<noteq> ACTIVE" by simp
  show ?thesis
    using shop_released_findOne n
      resolved_reservation_attempt_changes_nothing [OF shop_released_findOne n, of 5]
    by simp
qed

end
